theory Spec2Isabelle
  imports Complex_Main "HOL-Library.Multiset"
begin

section \<open>The trend scorer of maverick-mcp (\<^verbatim>\<open>maverick_mcp/tools/trend_scorer.py\<close>)\<close>

text \<open>
  The class \<^verbatim>\<open>SP500TrendScorer\<close> fetches a daily price frame for a ticker, derives five
  integer indicator scores from it (MA, MACD, ADX, RSI, OBV), combines them into a
  weighted raw score and a normalised score between 0 and 100, and ranks a batch of
  tickers by the normalised score.

  Conventions of the embedding:
  \<^item> a Python \<^verbatim>\<open>float\<close> is a \<open>pyfloat\<close>: a real number, one of the two infinities, or NaN.
    Finite arithmetic is exact (no binary rounding, no overflow, zero is unsigned and
    divides like \<^verbatim>\<open>+0.0\<close>); comparisons follow IEEE 754, so every comparison with NaN
    is false;
  \<^item> an exception is a value of type \<open>exn\<close>; a computation that may raise returns
    \<open>exn + 'a\<close>, with \<open>Inl\<close> the exception. Only subclasses of \<^verbatim>\<open>Exception\<close> are meant,
    the ones \<^verbatim>\<open>except Exception\<close> catches;
  \<^item> the functions of pandas, ta, numpy and datetime that the class calls are not part of
    the repository: they are the fields of a record \<open>extern\<close>, and every theorem holds
    for every such library. The process environment, the clock and the HTTP provider are
    the fields of a record \<open>world\<close>;
  \<^item> calls to the logger are left out; the calls that reach the outside world
    (\<^verbatim>\<open>requests.get\<close>, and \<^verbatim>\<open>time.sleep\<close> if there were one) are returned as a list of
    events, in program order.
\<close>

subsection \<open>Python values\<close>

datatype pyfloat = Fin real | PInf | NInf | NaN

datatype exn =
    KeyError | IndexError | ValueError | TypeError | AttributeError
  | OverflowError | HTTPError | LinAlgError

text \<open>\<open>a < b\<close> on floats; \<open>a > b\<close> is \<open>flt b a\<close>.\<close>

fun flt :: "pyfloat \<Rightarrow> pyfloat \<Rightarrow> bool" where
  "flt (Fin a) (Fin b) = (a < b)"
| "flt (Fin a) PInf = True"
| "flt NInf (Fin b) = True"
| "flt NInf PInf = True"
| "flt _ _ = False"

definition fgt :: "pyfloat \<Rightarrow> pyfloat \<Rightarrow> bool" where
  "fgt a b = flt b a"

fun fsub :: "pyfloat \<Rightarrow> pyfloat \<Rightarrow> pyfloat" where
  "fsub (Fin a) (Fin b) = Fin (a - b)"
| "fsub NaN _ = NaN"
| "fsub _ NaN = NaN"
| "fsub PInf PInf = NaN"
| "fsub NInf NInf = NaN"
| "fsub PInf _ = PInf"
| "fsub NInf _ = NInf"
| "fsub (Fin a) PInf = NInf"
| "fsub (Fin a) NInf = PInf"

text \<open>
  Division of numpy scalars: dividing by zero raises nothing (the module silences the
  warning), it gives an infinity, or NaN for \<open>0 / 0\<close>.
\<close>

fun fdiv :: "pyfloat \<Rightarrow> pyfloat \<Rightarrow> pyfloat" where
  "fdiv (Fin a) (Fin b) =
     (if b \<noteq> 0 then Fin (a / b)
      else if a = 0 then NaN else if 0 < a then PInf else NInf)"
| "fdiv NaN _ = NaN"
| "fdiv _ NaN = NaN"
| "fdiv (Fin a) PInf = Fin 0"
| "fdiv (Fin a) NInf = Fin 0"
| "fdiv PInf (Fin b) = (if 0 \<le> b then PInf else NInf)"
| "fdiv NInf (Fin b) = (if 0 \<le> b then NInf else PInf)"
| "fdiv PInf _ = NaN"
| "fdiv NInf _ = NaN"

definition isna :: "pyfloat \<Rightarrow> bool" where
  "isna x = (x = NaN)"

text \<open>Sequencing of computations that may raise, and \<^verbatim>\<open>xs[i]\<close> with Python's negative indices.\<close>

definition and_then :: "exn + 'a \<Rightarrow> ('a \<Rightarrow> exn + 'b) \<Rightarrow> exn + 'b" where
  "and_then m f = (case m of Inl e \<Rightarrow> Inl e | Inr x \<Rightarrow> f x)"

definition iloc :: "'a list \<Rightarrow> int \<Rightarrow> exn + 'a" where
  "iloc xs i =
     (if 0 \<le> i \<and> i < int (length xs) then Inr (xs ! nat i)
      else if i < 0 \<and> - int (length xs) \<le> i then Inr (xs ! nat (int (length xs) + i))
      else Inl IndexError)"

text \<open>
  \<^verbatim>\<open>round(x, n)\<close> on a finite float: the nearest multiple of \<open>10\<^sup>-\<^sup>n\<close>, a tie going to the
  even one.
\<close>

definition round_half_even :: "real \<Rightarrow> int" where
  "round_half_even x =
     (let f = \<lfloor>x\<rfloor>; d = x - of_int f
      in if d < 1/2 then f else if 1/2 < d then f + 1 else if even f then f else f + 1)"

definition py_round :: "real \<Rightarrow> nat \<Rightarrow> real" where
  "py_round x n = of_int (round_half_even (x * 10 ^ n)) / 10 ^ n"

subsection \<open>Frames and the external libraries\<close>

text \<open>
  A pandas \<^verbatim>\<open>DataFrame\<close>: the index (one entry per row, \<open>None\<close> for \<^verbatim>\<open>NaT\<close>, otherwise the
  timestamp in milliseconds) and the columns by label. \<^verbatim>\<open>data['Close']\<close> raises
  \<^verbatim>\<open>KeyError\<close> when there is no such column.
\<close>

record frame =
  row_index :: "int option list"
  columns :: "string \<Rightarrow> pyfloat list option"

definition len :: "frame \<Rightarrow> int" where
  "len data = int (length (row_index data))"

definition getcol :: "frame \<Rightarrow> string \<Rightarrow> exn + pyfloat list" where
  "getcol data label = (case columns data label of None \<Rightarrow> Inl KeyError | Some c \<Rightarrow> Inr c)"

text \<open>One row of the provider's answer after pandas has parsed it.\<close>

record bar =
  bar_t :: "int option"
  bar_open :: pyfloat
  bar_high :: pyfloat
  bar_low :: pyfloat
  bar_close :: pyfloat
  bar_volume :: pyfloat

datatype json =
    JNull | JBool bool | JNum real | JStr string | JArr "json list"
  | JObj "(string \<times> json) list"

text \<open>
  The library calls of the module, each a function that returns or raises:
  \<^item> \<open>rolling_mean n s\<close> is \<^verbatim>\<open>s.rolling(window=n).mean()\<close>;
  \<^item> \<open>ta_macd s\<close> and \<open>ta_macd_signal s\<close> are \<^verbatim>\<open>ta.trend.MACD(s).macd()\<close> and
    \<^verbatim>\<open>.macd_signal()\<close>;
  \<^item> \<open>ta_adx h l c n\<close>, \<open>ta_adx_pos\<close>, \<open>ta_adx_neg\<close> are the three series of
    \<^verbatim>\<open>ta.trend.ADXIndicator(h, l, c, window=n)\<close>;
  \<^item> \<open>ta_rsi s n\<close> is \<^verbatim>\<open>ta.momentum.RSIIndicator(s, window=n).rsi()\<close>;
  \<^item> \<open>ta_obv c v\<close> is \<^verbatim>\<open>ta.volume.OnBalanceVolumeIndicator(c, v).on_balance_volume()\<close>;
  \<^item> \<open>np_polyfit xs ys d\<close> is \<^verbatim>\<open>np.polyfit(xs, ys, d)\<close>, the coefficients from the highest
    degree down;
  \<^item> \<open>strptime s\<close> is \<^verbatim>\<open>datetime.strptime(s, "%Y-%m-%d")\<close> as a day number (the proleptic
    Gregorian ordinal, day 1 being 0001-01-01), \<open>strftime d\<close> formats a day number and
    \<open>stamp_strftime t\<close> a timestamp in milliseconds as \<^verbatim>\<open>%Y-%m-%d\<close>;
  \<^item> \<open>utcfromtimestamp x\<close> is \<^verbatim>\<open>datetime.utcfromtimestamp(x)\<close> as a day number;
  \<^item> \<open>pd_bars rows\<close> is the frame pandas builds from the provider's rows in lines 147 to
    151 of \<^verbatim>\<open>get_stock_data\<close>, row by row.
\<close>

record extern =
  rolling_mean :: "int \<Rightarrow> pyfloat list \<Rightarrow> exn + pyfloat list"
  ta_macd :: "pyfloat list \<Rightarrow> exn + pyfloat list"
  ta_macd_signal :: "pyfloat list \<Rightarrow> exn + pyfloat list"
  ta_adx :: "pyfloat list \<Rightarrow> pyfloat list \<Rightarrow> pyfloat list \<Rightarrow> int \<Rightarrow> exn + pyfloat list"
  ta_adx_pos :: "pyfloat list \<Rightarrow> pyfloat list \<Rightarrow> pyfloat list \<Rightarrow> int \<Rightarrow> exn + pyfloat list"
  ta_adx_neg :: "pyfloat list \<Rightarrow> pyfloat list \<Rightarrow> pyfloat list \<Rightarrow> int \<Rightarrow> exn + pyfloat list"
  ta_rsi :: "pyfloat list \<Rightarrow> int \<Rightarrow> exn + pyfloat list"
  ta_obv :: "pyfloat list \<Rightarrow> pyfloat list \<Rightarrow> exn + pyfloat list"
  np_polyfit :: "int list \<Rightarrow> pyfloat list \<Rightarrow> nat \<Rightarrow> exn + pyfloat list"
  strptime :: "string \<Rightarrow> exn + int"
  strftime :: "int \<Rightarrow> string"
  stamp_strftime :: "int \<Rightarrow> string"
  utcfromtimestamp :: "real \<Rightarrow> exn + int"
  pd_bars :: "json \<Rightarrow> exn + bar list"

subsection \<open>The five indicator scorers\<close>

text \<open>
  \<^verbatim>\<open>calculate_ma_score\<close> (lines 157 to 189). There is no \<^verbatim>\<open>try\<close> in this function: what
  its body raises reaches the caller. The spread between the two means is computed and
  compared with 0.05 and 0.02 in exact arithmetic; where it lies within the rounding
  error of a threshold (a spread of exactly 5 percent, say) the float code may take the
  neighbouring step of the ladder.
\<close>

definition calculate_ma_score :: "extern \<Rightarrow> frame \<Rightarrow> int \<Rightarrow> int \<Rightarrow> exn + int" where
  "calculate_ma_score lib data short_period long_period =
     (if len data < long_period then Inr 0
      else
        and_then (getcol data ''Close'') (\<lambda>close.
        and_then (rolling_mean lib short_period close) (\<lambda>short_ma.
        and_then (rolling_mean lib long_period close) (\<lambda>long_ma.
        and_then (iloc short_ma (- 1)) (\<lambda>latest_short.
        and_then (iloc long_ma (- 1)) (\<lambda>latest_long.
        and_then (iloc close (- 1)) (\<lambda>latest_price.
          if fgt latest_price latest_short \<and> fgt latest_short latest_long then
            (if fgt (fdiv (fsub latest_short latest_long) latest_long) (Fin 0.05) then Inr 3
             else if fgt (fdiv (fsub latest_short latest_long) latest_long) (Fin 0.02) then Inr 2
             else Inr 1)
          else if fgt latest_price latest_short then Inr 1
          else if flt latest_price latest_short \<and> flt latest_short latest_long then
            (if fgt (fdiv (fsub latest_long latest_short) latest_long) (Fin 0.05) then Inr (- 3)
             else if fgt (fdiv (fsub latest_long latest_short) latest_long) (Fin 0.02) then Inr (- 2)
             else Inr (- 1))
          else if flt latest_price latest_short then Inr (- 1)
          else Inr 0)))))))"

text \<open>
  The other four scorers guard their body with \<^verbatim>\<open>try: ... except Exception: return 0\<close>.
  \<open>except_return_0 body\<close> is that handler around \<open>body\<close>.
\<close>

definition except_return_0 :: "exn + int \<Rightarrow> exn + int" where
  "except_return_0 body = (case body of Inl e \<Rightarrow> Inr 0 | Inr v \<Rightarrow> Inr v)"

text \<open>
  \<^verbatim>\<open>calculate_macd_score\<close> (lines 191 to 224). \<^verbatim>\<open>prev_signal\<close> is computed by the source
  and never used; its computation cannot raise (the index is guarded by the length).
\<close>

definition calculate_macd_score :: "extern \<Rightarrow> frame \<Rightarrow> exn + int" where
  "calculate_macd_score lib data =
     (if len data < 34 then Inr 0
      else except_return_0 (
        and_then (getcol data ''Close'') (\<lambda>close.
        and_then (ta_macd lib close) (\<lambda>macd_line.
        and_then (ta_macd_signal lib close) (\<lambda>macd_signal.
        and_then (iloc macd_line (- 1)) (\<lambda>latest_macd.
          if isna latest_macd then Inr 0
          else
            and_then (iloc macd_signal (- 1)) (\<lambda>latest_signal.
              if isna latest_signal then Inr 0
              else
                and_then (if 1 < length macd_line then iloc macd_line (- 2) else Inr latest_macd)
                  (\<lambda>prev_macd.
                    if fgt latest_macd latest_signal then
                      (if fgt latest_macd (Fin 0) \<and> fgt (fsub latest_macd prev_macd) (Fin 0)
                       then Inr 2 else Inr 1)
                    else if flt latest_macd latest_signal then
                      (if flt latest_macd (Fin 0) \<and> flt (fsub latest_macd prev_macd) (Fin 0)
                       then Inr (- 2) else Inr (- 1))
                    else Inr 0))))))))"

text \<open>\<^verbatim>\<open>calculate_adx_score\<close> (lines 226 to 260).\<close>

definition calculate_adx_score :: "extern \<Rightarrow> frame \<Rightarrow> int \<Rightarrow> exn + int" where
  "calculate_adx_score lib data period =
     (if len data < period + 14 then Inr 0
      else except_return_0 (
        and_then (getcol data ''High'') (\<lambda>high.
        and_then (getcol data ''Low'') (\<lambda>low.
        and_then (getcol data ''Close'') (\<lambda>close.
        and_then (ta_adx lib high low close period) (\<lambda>adx.
        and_then (ta_adx_pos lib high low close period) (\<lambda>plus_di.
        and_then (ta_adx_neg lib high low close period) (\<lambda>minus_di.
        and_then (iloc adx (- 1)) (\<lambda>latest_adx.
          if isna latest_adx then Inr 0
          else
            and_then (iloc plus_di (- 1)) (\<lambda>latest_plus_di.
              if isna latest_plus_di then Inr 0
              else
                and_then (iloc minus_di (- 1)) (\<lambda>latest_minus_di.
                  if isna latest_minus_di then Inr 0
                  else if fgt latest_adx (Fin 30) then
                    (if fgt latest_plus_di latest_minus_di then Inr 2 else Inr (- 2))
                  else if fgt latest_adx (Fin 20) then
                    (if fgt latest_plus_di latest_minus_di then Inr 1 else Inr (- 1))
                  else Inr 0)))))))))))"

text \<open>\<^verbatim>\<open>calculate_rsi_score\<close> (lines 262 to 289).\<close>

definition calculate_rsi_score :: "extern \<Rightarrow> frame \<Rightarrow> int \<Rightarrow> exn + int" where
  "calculate_rsi_score lib data period =
     (if len data < period then Inr 0
      else except_return_0 (
        and_then (getcol data ''Close'') (\<lambda>close.
        and_then (ta_rsi lib close period) (\<lambda>rsi.
        and_then (iloc rsi (- 1)) (\<lambda>latest_rsi.
          if isna latest_rsi then Inr 0
          else if fgt latest_rsi (Fin 70) then Inr (- 1)
          else if fgt latest_rsi (Fin 60) then Inr 1
          else if flt latest_rsi (Fin 30) then Inr 1
          else if flt latest_rsi (Fin 40) then Inr (- 1)
          else Inr 0)))))"

text \<open>
  \<^verbatim>\<open>calculate_obv_score\<close> (lines 291 to 316). \<^verbatim>\<open>obv.iloc[-5:]\<close> is the last five values
  (all of them when there are fewer), and \<^verbatim>\<open>range(len(recent_obv))\<close> counts from 0.
\<close>

definition calculate_obv_score :: "extern \<Rightarrow> frame \<Rightarrow> exn + int" where
  "calculate_obv_score lib data =
     (if len data < 10 then Inr 0
      else except_return_0 (
        and_then (getcol data ''Close'') (\<lambda>close.
        and_then (getcol data ''Volume'') (\<lambda>volume.
        and_then (ta_obv lib close volume) (\<lambda>obv.
          if length obv < 5 then Inr 0
          else
            (let recent_obv = drop (length obv - 5) obv in
             and_then (np_polyfit lib (map int [0..<length recent_obv]) recent_obv 1) (\<lambda>coeffs.
             and_then (iloc coeffs 0) (\<lambda>obv_trend.
               if fgt obv_trend (Fin 0) then Inr 1
               else if flt obv_trend (Fin 0) then Inr (- 1)
               else Inr 0))))))))"

subsection \<open>The scorer object and the aggregation\<close>

text \<open>The attributes \<^verbatim>\<open>__init__\<close> sets (lines 67 to 87).\<close>

record scorer =
  fixed_end_date :: "string option"
  weight :: real
  score_ranges :: "(string \<times> int \<times> int) list"

definition SP500TrendScorer :: "string option \<Rightarrow> scorer" where
  "SP500TrendScorer fixed =
     \<lparr>fixed_end_date = fixed,
      weight = 2.1 / 9,
      score_ranges =
        [(''MA'', - 3, 3), (''MACD'', - 2, 2), (''ADX'', - 2, 2), (''RSI'', - 1, 1),
         (''OBV'', - 1, 1)]\<rparr>"

record trend_score_result =
  ticker :: string
  latest_date :: string
  normalized_trend_score :: real
  weighted_raw_score :: real
  ma_score :: int
  macd_score :: int
  adx_score :: int
  rsi_score :: int
  obv_score :: int

text \<open>
  Lines 332 to 343 of \<^verbatim>\<open>calculate_trend_score\<close>: from the five scores to the two numbers
  stored in the result, the normalised score first. \<^verbatim>\<open>max(0, min(100, x))\<close> is on finite
  numbers here, the scores being integers.
\<close>

definition aggregate :: "scorer \<Rightarrow> int \<Rightarrow> int \<Rightarrow> int \<Rightarrow> int \<Rightarrow> int \<Rightarrow> real \<times> real" where
  "aggregate self ma macd adx rsi obv =
     (let weighted_raw = of_int (ma + macd + adx + rsi + obv) * weight self;
          normalized = (weighted_raw + 2.1) / 4.2 * 100;
          normalized = max 0 (min 100 normalized)
      in (py_round normalized 2, py_round weighted_raw 3))"

subsection \<open>Fetching the price frame\<close>

record response =
  raise_for_status :: "exn option"
  json_body :: "exn + json"

text \<open>
  The outside world: \<^verbatim>\<open>os.environ\<close>, \<^verbatim>\<open>requests.get(url, params=..., timeout=...)\<close> and
  the day number of \<^verbatim>\<open>datetime.utcnow()\<close>. The provider answers a request the same way
  every time it is asked within one run.
\<close>

record world =
  environ :: "string \<Rightarrow> string option"
  requests_get :: "string \<Rightarrow> (string \<times> string) list \<Rightarrow> nat \<Rightarrow> exn + response"
  utcnow :: int

datatype event = HttpGet string | Sleep real

text \<open>Truth value of a parsed JSON value, \<^verbatim>\<open>d.get(key, default)\<close>, \<^verbatim>\<open>x[0]\<close> and \<^verbatim>\<open>x / n\<close>.\<close>

fun truthy :: "json \<Rightarrow> bool" where
  "truthy JNull = False"
| "truthy (JBool b) = b"
| "truthy (JNum x) = (x \<noteq> 0)"
| "truthy (JStr s) = (s \<noteq> [])"
| "truthy (JArr xs) = (xs \<noteq> [])"
| "truthy (JObj kvs) = (kvs \<noteq> [])"

fun dict_get :: "json \<Rightarrow> string \<Rightarrow> json \<Rightarrow> exn + json" where
  "dict_get (JObj kvs) key dflt =
     Inr (case map_of (rev kvs) key of None \<Rightarrow> dflt | Some v \<Rightarrow> v)"
| "dict_get _ key dflt = Inl AttributeError"

fun json_first :: "json \<Rightarrow> exn + json" where
  "json_first (JArr xs) = iloc xs 0"
| "json_first (JStr s) = (case s of [] \<Rightarrow> Inl IndexError | c # _ \<Rightarrow> Inr (JStr [c]))"
| "json_first (JObj kvs) = Inl KeyError"
| "json_first _ = Inl TypeError"

fun json_div :: "json \<Rightarrow> real \<Rightarrow> exn + real" where
  "json_div (JNum x) n = Inr (x / n)"
| "json_div (JBool b) n = Inr ((if b then 1 else 0) / n)"
| "json_div _ n = Inl TypeError"

definition check_status :: "response \<Rightarrow> exn + unit" where
  "check_status r = (case raise_for_status r of None \<Rightarrow> Inr () | Some e \<Rightarrow> Inl e)"

text \<open>\<^verbatim>\<open>_period_to_days\<close> (lines 89 to 95) and \<^verbatim>\<open>_normalize_polygon_ticker\<close> (lines 97 to 99).\<close>

definition period_to_days :: "string \<Rightarrow> int" where
  "period_to_days period =
     (case map_of [(''1mo'', 31), (''3mo'', 93), (''6mo'', 186), (''1y'', 365), (''2y'', 730)] period of
        None \<Rightarrow> 186
      | Some days \<Rightarrow> days)"

definition normalize_polygon_ticker :: "string \<Rightarrow> string" where
  "normalize_polygon_ticker tk = map (\<lambda>c. if c = CHR ''-'' then CHR ''.'' else c) tk"

text \<open>
  \<^verbatim>\<open>_latest_trading_date\<close> (lines 101 to 119): the date of the provider's previous close,
  and today's date when there is no key or anything fails.
\<close>

definition latest_trading_date :: "extern \<Rightarrow> world \<Rightarrow> string \<Rightarrow> event list \<times> string" where
  "latest_trading_date lib w tk0 =
     (case environ w ''POLYGON_API_KEY'' of
        None \<Rightarrow> ([], strftime lib (utcnow w))
      | Some api_key \<Rightarrow>
          if api_key = [] then ([], strftime lib (utcnow w))
          else
            (let tk = normalize_polygon_ticker tk0;
                 url = ''https://api.polygon.io/v2/aggs/ticker/'' @ tk @ ''/prev'';
                 params = [(''adjusted'', ''true''), (''apiKey'', api_key)];
                 attempt =
                   and_then (requests_get w url params 15) (\<lambda>r.
                   and_then (check_status r) (\<lambda>_.
                   and_then (json_body r) (\<lambda>js.
                   and_then (dict_get js ''results'' (JArr [JObj []])) (\<lambda>results.
                   and_then (json_first results) (\<lambda>first.
                   and_then (dict_get first ''t'' JNull) (\<lambda>ts.
                     if truthy ts then
                       and_then (json_div ts 1000) (\<lambda>secs.
                       and_then (utcfromtimestamp lib secs) (\<lambda>day.
                         Inr (Some (strftime lib day))))
                     else Inr None))))))
             in ([HttpGet url],
                 case attempt of
                   Inr (Some s) \<Rightarrow> s
                 | _ \<Rightarrow> strftime lib (utcnow w))))"

text \<open>
  \<^verbatim>\<open>end - timedelta(days=n)\<close> raises \<^verbatim>\<open>OverflowError\<close> before day 1. Lines 147 to 151 keep
  exactly the five price columns of the parsed rows, indexed by the rows' dates.
\<close>

definition minus_days :: "int \<Rightarrow> int \<Rightarrow> exn + int" where
  "minus_days d n = (if d - n < 1 then Inl OverflowError else Inr (d - n))"

definition frame_of_bars :: "bar list \<Rightarrow> frame" where
  "frame_of_bars bars =
     \<lparr>row_index = map bar_t bars,
      columns = map_of
        [(''Open'', map bar_open bars), (''High'', map bar_high bars),
         (''Low'', map bar_low bars), (''Close'', map bar_close bars),
         (''Volume'', map bar_volume bars)]\<rparr>"

text \<open>
  Lines 134 and 135: the end date when no fixed date is set, the ticker's own latest
  trading date, or the one of SPY when that is the empty string.
\<close>

definition latest_end_date :: "extern \<Rightarrow> world \<Rightarrow> string \<Rightarrow> event list \<times> (exn + int)" where
  "latest_end_date lib w tk0 =
     (let (evs1, latest) = latest_trading_date lib w tk0;
          (evs2, latest_str) =
            (if latest \<noteq> [] then ([], latest) else latest_trading_date lib w ''SPY'')
      in (evs1 @ evs2, strptime lib latest_str))"

text \<open>
  \<^verbatim>\<open>get_stock_data\<close> (lines 121 to 155). Everything after the key check is inside
  \<^verbatim>\<open>try: ... except Exception: return None\<close>. \<^verbatim>\<open>if self.fixed_end_date\<close> is false for
  \<^verbatim>\<open>None\<close> and for the empty string.
\<close>

definition get_stock_data ::
  "extern \<Rightarrow> world \<Rightarrow> scorer \<Rightarrow> string \<Rightarrow> string \<Rightarrow> event list \<times> frame option" where
  "get_stock_data lib w self tk0 period =
     (case environ w ''POLYGON_API_KEY'' of
        None \<Rightarrow> ([], None)
      | Some api_key \<Rightarrow>
          if api_key = [] then ([], None)
          else
            (let days = period_to_days period;
                 (evs1, end_date) =
                   (case fixed_end_date self of
                      None \<Rightarrow> latest_end_date lib w tk0
                    | Some fixed \<Rightarrow>
                        if fixed \<noteq> [] then ([], strptime lib fixed)
                        else latest_end_date lib w tk0)
             in case and_then end_date (\<lambda>e. and_then (minus_days e days) (\<lambda>s. Inr (s, e))) of
                  Inl err \<Rightarrow> (evs1, None)
                | Inr (start, end_day) \<Rightarrow>
                    (let tk = normalize_polygon_ticker tk0;
                         url = ''https://api.polygon.io/v2/aggs/ticker/'' @ tk @ ''/range/1/day/''
                               @ strftime lib start @ ''/'' @ strftime lib end_day;
                         params = [(''adjusted'', ''true''), (''sort'', ''asc''),
                                   (''limit'', ''50000''), (''apiKey'', api_key)];
                         attempt =
                           and_then (requests_get w url params 20) (\<lambda>r.
                           and_then (check_status r) (\<lambda>_.
                           and_then (json_body r) (\<lambda>js.
                           and_then (dict_get js ''results'' (JArr [])) (\<lambda>results.
                             if \<not> truthy results then Inr None
                             else
                               and_then (pd_bars lib results) (\<lambda>bars.
                                 Inr (Some (frame_of_bars bars)))))))
                     in (evs1 @ [HttpGet url],
                         case attempt of Inl err \<Rightarrow> None | Inr df \<Rightarrow> df))))"

subsection \<open>Scoring one ticker and a batch\<close>

text \<open>
  \<^verbatim>\<open>calculate_trend_score\<close> (lines 318 to 349). The scorers are called with their default
  periods. \<^verbatim>\<open>data.index[-1].strftime(...)\<close> raises \<^verbatim>\<open>ValueError\<close> on \<^verbatim>\<open>NaT\<close>.
\<close>

definition calculate_trend_score ::
  "extern \<Rightarrow> world \<Rightarrow> scorer \<Rightarrow> string \<Rightarrow> string
     \<Rightarrow> event list \<times> (exn + trend_score_result option)" where
  "calculate_trend_score lib w self tk period =
     (let (evs, fetched) = get_stock_data lib w self tk period in
      (evs,
       case fetched of
         None \<Rightarrow> Inr None
       | Some data \<Rightarrow>
           if len data < 50 then Inr None
           else
             and_then (calculate_ma_score lib data 20 50) (\<lambda>ma.
             and_then (calculate_macd_score lib data) (\<lambda>macd.
             and_then (calculate_adx_score lib data 14) (\<lambda>adx.
             and_then (calculate_rsi_score lib data 14) (\<lambda>rsi.
             and_then (calculate_obv_score lib data) (\<lambda>obv.
               (let (normalized, weighted_raw) = aggregate self ma macd adx rsi obv in
                and_then (iloc (row_index data) (- 1)) (\<lambda>last_t.
                and_then (case last_t of None \<Rightarrow> Inl ValueError
                          | Some t \<Rightarrow> Inr (stamp_strftime lib t)) (\<lambda>date.
                  Inr (Some
                    \<lparr>ticker = tk, latest_date = date,
                     normalized_trend_score = normalized,
                     weighted_raw_score = weighted_raw,
                     ma_score = ma, macd_score = macd, adx_score = adx,
                     rsi_score = rsi, obv_score = obv\<rparr>)))))))))))"

text \<open>
  \<^verbatim>\<open>list.sort(key=k, reverse=True)\<close>: CPython reverses the list, sorts it stably by
  ascending key and reverses it again.
\<close>

definition sort_key_reverse :: "('a \<Rightarrow> real) \<Rightarrow> 'a list \<Rightarrow> 'a list" where
  "sort_key_reverse k xs = rev (sort_key k (rev xs))"

text \<open>
  \<^verbatim>\<open>calculate_batch_scores\<close> (lines 351 to 370): the loop, with the results so far, and
  the sort after it. An exception of \<^verbatim>\<open>calculate_trend_score\<close> ends the loop and the call.
\<close>

fun batch_loop ::
  "extern \<Rightarrow> world \<Rightarrow> scorer \<Rightarrow> string \<Rightarrow> string list \<Rightarrow> trend_score_result list
     \<Rightarrow> event list \<times> (exn + trend_score_result list)" where
  "batch_loop lib w self period [] results = ([], Inr results)"
| "batch_loop lib w self period (tk # tks) results =
     (let (evs, score_data) = calculate_trend_score lib w self tk period in
      case score_data of
        Inl err \<Rightarrow> (evs, Inl err)
      | Inr None \<Rightarrow>
          (let (evs', r) = batch_loop lib w self period tks results in (evs @ evs', r))
      | Inr (Some sd) \<Rightarrow>
          (let (evs', r) = batch_loop lib w self period tks (results @ [sd])
           in (evs @ evs', r)))"

definition calculate_batch_scores ::
  "extern \<Rightarrow> world \<Rightarrow> scorer \<Rightarrow> string list \<Rightarrow> string
     \<Rightarrow> event list \<times> (exn + trend_score_result list)" where
  "calculate_batch_scores lib w self tickers period =
     (let (evs, r) = batch_loop lib w self period tickers [] in
      (evs,
       case r of
         Inl err \<Rightarrow> Inl err
       | Inr results \<Rightarrow> Inr (sort_key_reverse normalized_trend_score results)))"

subsection \<open>The specification's words\<close>

text \<open>
  The aggregation as the specification writes it: the weight \<open>2.1 / 9\<close> times the sum of
  the five scores, and the linear map to 0..100 followed by a hard clamp.
\<close>

definition clamp :: "real \<Rightarrow> real \<Rightarrow> real \<Rightarrow> real" where
  "clamp x lo hi = (if x < lo then lo else if hi < x then hi else x)"

definition spec_weighted_raw :: "int \<Rightarrow> int \<Rightarrow> int \<Rightarrow> int \<Rightarrow> int \<Rightarrow> real" where
  "spec_weighted_raw ma macd adx rsi obv = (2.1 / 9) * of_int (ma + macd + adx + rsi + obv)"

definition spec_normalized :: "real \<Rightarrow> real" where
  "spec_normalized weighted_raw = clamp (((weighted_raw + 2.1) / 4.2) * 100) 0 100"

text \<open>A number with at most \<open>n\<close> decimal places.\<close>

definition decimals :: "nat \<Rightarrow> real \<Rightarrow> bool" where
  "decimals n x = (\<exists>k::int. x = of_int k / 10 ^ n)"


text \<open>
  The rate-limit contract of the specification, on the events of a run: every HTTP request
  comes directly after a sleep of positive length.
\<close>

fun delay_before_each_fetch :: "event list \<Rightarrow> bool" where
  "delay_before_each_fetch [] = True"
| "delay_before_each_fetch (Sleep d # HttpGet url # es) = (0 < d \<and> delay_before_each_fetch es)"
| "delay_before_each_fetch (HttpGet url # es) = False"
| "delay_before_each_fetch (Sleep d # es) = delay_before_each_fetch es"

fun is_sleep :: "event \<Rightarrow> bool" where
  "is_sleep (Sleep d) = True"
| "is_sleep (HttpGet url) = False"

text \<open>
  What pandas promises of \<^verbatim>\<open>rolling(window=n).mean()\<close> for a window that is not negative:
  it returns a series as long as its input.
\<close>

definition rolling_total :: "extern \<Rightarrow> bool" where
  "rolling_total lib =
     (\<forall>n s. 0 \<le> n \<longrightarrow> (\<exists>r. rolling_mean lib n s = Inr r \<and> length r = length s))"

subsection \<open>A test library and a test provider\<close>

text \<open>
  An instance of the external functions for concrete runs: the rolling mean computes
  its last entry only, the exact mean of the last full window (the earlier entries, which
  no scorer reads, are NaN); the indicator series of ta are constant (MACD and its signal
  0, ADX 0, RSI 50, on-balance volume 0), the fitted line is flat, the date functions
  know the two days of the test provider's request, and a row whose timestamp is null gets
  the index entry NaT.
\<close>

fun fin_value :: "pyfloat \<Rightarrow> real option" where
  "fin_value (Fin r) = Some r"
| "fin_value _ = None"

definition window_mean :: "pyfloat list \<Rightarrow> pyfloat" where
  "window_mean xs =
     (if xs = [] \<or> None \<in> set (map fin_value xs) then NaN
      else Fin (sum_list (map (\<lambda>x. the (fin_value x)) xs) / of_nat (length xs)))"

definition test_rolling_mean :: "int \<Rightarrow> pyfloat list \<Rightarrow> exn + pyfloat list" where
  "test_rolling_mean n s =
     (if n < 0 then Inl ValueError
      else if s = [] then Inr []
      else Inr (map (\<lambda>_. NaN) (butlast s) @
                [if int (length s) < n then NaN
                 else window_mean (drop (length s - nat n) s)]))"

fun test_num :: "(string \<times> json) list \<Rightarrow> string \<Rightarrow> exn + real" where
  "test_num kvs k = (case map_of kvs k of Some (JNum x) \<Rightarrow> Inr x | _ \<Rightarrow> Inl KeyError)"

fun test_stamp :: "(string \<times> json) list \<Rightarrow> exn + int option" where
  "test_stamp kvs =
     (case map_of kvs ''t'' of
        Some (JNum x) \<Rightarrow> Inr (Some \<lfloor>x\<rfloor>)
      | Some JNull \<Rightarrow> Inr None
      | _ \<Rightarrow> Inl KeyError)"

fun test_bar :: "json \<Rightarrow> exn + bar" where
  "test_bar (JObj kvs) =
     and_then (test_stamp kvs) (\<lambda>t.
     and_then (test_num kvs ''o'') (\<lambda>op.
     and_then (test_num kvs ''h'') (\<lambda>hi.
     and_then (test_num kvs ''l'') (\<lambda>lo.
     and_then (test_num kvs ''c'') (\<lambda>cl.
     and_then (test_num kvs ''v'') (\<lambda>vol.
       Inr \<lparr>bar_t = t, bar_open = Fin op, bar_high = Fin hi, bar_low = Fin lo,
            bar_close = Fin cl, bar_volume = Fin vol\<rparr>))))))"
| "test_bar _ = Inl ValueError"

fun test_bars :: "json list \<Rightarrow> exn + bar list" where
  "test_bars [] = Inr []"
| "test_bars (r # rs) =
     and_then (test_bar r) (\<lambda>b. and_then (test_bars rs) (\<lambda>bs. Inr (b # bs)))"

definition test_lib :: extern where
  "test_lib =
     \<lparr>rolling_mean = test_rolling_mean,
      ta_macd = (\<lambda>s. Inr (map (\<lambda>_. Fin 0) s)),
      ta_macd_signal = (\<lambda>s. Inr (map (\<lambda>_. Fin 0) s)),
      ta_adx = (\<lambda>h l c n. Inr (map (\<lambda>_. Fin 0) c)),
      ta_adx_pos = (\<lambda>h l c n. Inr (map (\<lambda>_. Fin 0) c)),
      ta_adx_neg = (\<lambda>h l c n. Inr (map (\<lambda>_. Fin 0) c)),
      ta_rsi = (\<lambda>s n. Inr (map (\<lambda>_. Fin 50) s)),
      ta_obv = (\<lambda>c v. Inr (map (\<lambda>_. Fin 0) c)),
      np_polyfit = (\<lambda>xs ys d. Inr [Fin 0, Fin 0]),
      strptime = (\<lambda>s. if s = ''2024-06-28'' then Inr 739065 else Inl ValueError),
      strftime = (\<lambda>d. if d = 739065 then ''2024-06-28''
                        else if d = 738879 then ''2023-12-25'' else ''1970-01-01''),
      stamp_strftime = (\<lambda>t. ''2024-06-28''),
      utcfromtimestamp = (\<lambda>x. Inr 739065),
      pd_bars = (\<lambda>rows. case rows of JArr rs \<Rightarrow> test_bars rs | _ \<Rightarrow> Inl ValueError)\<rparr>"

text \<open>
  The test provider knows four tickers: UP and UP.B (50 daily bars closing 30 times at 100,
  19 times at 110 and last at 130), DOWN (30 times 100, 19 times 90, last 70) and SHORT
  (49 bars closing at 100). Every other request is answered with an empty list of results.
\<close>

definition test_row :: "real \<Rightarrow> json" where
  "test_row c =
     JObj [(''t'', JNum 1719532800000), (''o'', JNum c), (''h'', JNum (c + 1)),
           (''l'', JNum (c - 1)), (''c'', JNum c), (''v'', JNum 1000)]"

definition test_bar_of :: "real \<Rightarrow> bar" where
  "test_bar_of c =
     \<lparr>bar_t = Some 1719532800000, bar_open = Fin c, bar_high = Fin (c + 1),
      bar_low = Fin (c - 1), bar_close = Fin c, bar_volume = Fin 1000\<rparr>"

definition up_closes :: "real list" where
  "up_closes = replicate 30 100 @ replicate 19 110 @ [130]"

definition down_closes :: "real list" where
  "down_closes = replicate 30 100 @ replicate 19 90 @ [70]"

definition short_closes :: "real list" where
  "short_closes = replicate 49 100"

definition test_answer :: "real list \<Rightarrow> exn + response" where
  "test_answer closes =
     Inr \<lparr>raise_for_status = None,
          json_body = Inr (JObj [(''results'', JArr (map test_row closes))])\<rparr>"

definition test_world :: world where
  "test_world =
     \<lparr>environ = map_of [(''POLYGON_API_KEY'', ''secret'')],
      requests_get = (\<lambda>url params timeout.
        if url = ''https://api.polygon.io/v2/aggs/ticker/UP/range/1/day/2023-12-25/2024-06-28''
           \<or> url = ''https://api.polygon.io/v2/aggs/ticker/UP.B/range/1/day/2023-12-25/2024-06-28''
        then test_answer up_closes
        else if url = ''https://api.polygon.io/v2/aggs/ticker/DOWN/range/1/day/2023-12-25/2024-06-28''
        then test_answer down_closes
        else if url = ''https://api.polygon.io/v2/aggs/ticker/SHORT/range/1/day/2023-12-25/2024-06-28''
        then test_answer short_closes
        else test_answer []),
      utcnow = 739065\<rparr>"

definition test_scorer :: scorer where
  "test_scorer = SP500TrendScorer (Some ''2024-06-28'')"

text \<open>
  More fixtures: the test library with an RSI series that is constantly \<open>v\<close>; closes whose
  20-bar and 50-bar means are both 100 while the last close is 110; a frame of 50 rows
  that has no Close column; the test provider without a credential; the test library
  with indicator functions of ta that raise; and a provider that also knows the ticker
  BAD, whose 50 rows are those of UP except that the last row has a null timestamp.
\<close>

definition rsi_lib :: "real \<Rightarrow> extern" where
  "rsi_lib v = test_lib\<lparr>ta_rsi := (\<lambda>s n. Inr (map (\<lambda>_. Fin v) s))\<rparr>"

definition tie_closes :: "real list" where
  "tie_closes = replicate 30 100 @ replicate 10 90 @ replicate 10 110"

definition no_close_frame :: frame where
  "no_close_frame =
     \<lparr>row_index = replicate 50 (Some 1719532800000),
      columns = map_of
        [(''Open'', replicate 50 (Fin 100)), (''High'', replicate 50 (Fin 101)),
         (''Low'', replicate 50 (Fin 99)), (''Volume'', replicate 50 (Fin 1000))]\<rparr>"

definition no_key_world :: world where
  "no_key_world = test_world\<lparr>environ := (\<lambda>k. None)\<rparr>"





section \<open>Properties\<close>

subsection \<open>Auxiliary facts\<close>

lemma iloc_last: "xs \<noteq> [] \<Longrightarrow> iloc xs (- 1) = Inr (last xs)"
  by (cases xs rule: rev_cases) (auto simp: iloc_def nth_append)

lemma ma_range: "calculate_ma_score lib d s l = Inr v \<Longrightarrow> - 3 \<le> v \<and> v \<le> 3"
  by (auto simp: calculate_ma_score_def and_then_def split: sum.splits if_splits)

lemma macd_range: "calculate_macd_score lib d = Inr v \<Longrightarrow> - 2 \<le> v \<and> v \<le> 2"
  by (auto simp: calculate_macd_score_def except_return_0_def and_then_def split: sum.splits if_splits)

lemma adx_range: "calculate_adx_score lib d p = Inr v \<Longrightarrow> - 2 \<le> v \<and> v \<le> 2"
  by (auto simp: calculate_adx_score_def except_return_0_def and_then_def split: sum.splits if_splits)

lemma rsi_range: "calculate_rsi_score lib d p = Inr v \<Longrightarrow> - 1 \<le> v \<and> v \<le> 1"
  by (auto simp: calculate_rsi_score_def except_return_0_def and_then_def split: sum.splits if_splits)

lemma obv_range: "calculate_obv_score lib d = Inr v \<Longrightarrow> - 1 \<le> v \<and> v \<le> 1"
  by (auto simp: calculate_obv_score_def except_return_0_def and_then_def Let_def split: sum.splits if_splits)

lemma except_return_0_total: "\<exists>v. except_return_0 body = Inr v"
  by (simp add: except_return_0_def split: sum.splits)

lemma macd_total: "\<exists>v. calculate_macd_score lib d = Inr v"
  by (simp add: calculate_macd_score_def except_return_0_total)

lemma adx_total: "\<exists>v. calculate_adx_score lib d p = Inr v"
  by (simp add: calculate_adx_score_def except_return_0_total)

lemma rsi_total: "\<exists>v. calculate_rsi_score lib d p = Inr v"
  by (simp add: calculate_rsi_score_def except_return_0_total)

lemma obv_total: "\<exists>v. calculate_obv_score lib d = Inr v"
  by (simp add: calculate_obv_score_def except_return_0_total)

lemma round_half_even_ge: "of_int a \<le> x \<Longrightarrow> a \<le> round_half_even x"
proof -
  assume "of_int a \<le> x"
  then have "a \<le> \<lfloor>x\<rfloor>" by (simp add: le_floor_iff)
  then show ?thesis by (simp add: round_half_even_def Let_def)
qed

lemma round_half_even_le: "x \<le> of_int b \<Longrightarrow> round_half_even x \<le> b"
proof -
  assume le: "x \<le> of_int b"
  then have fl: "\<lfloor>x\<rfloor> \<le> b" by (simp add: floor_le_iff)
  show ?thesis
  proof (cases "\<lfloor>x\<rfloor> = b")
    case True
    have "of_int \<lfloor>x\<rfloor> \<le> x" by simp
    with True le have "x - of_int \<lfloor>x\<rfloor> = 0" by linarith
    then show ?thesis using True by (simp add: round_half_even_def Let_def)
  next
    case False
    with fl have "\<lfloor>x\<rfloor> + 1 \<le> b" by linarith
    then show ?thesis using fl by (simp add: round_half_even_def Let_def)
  qed
qed

lemma py_round_bounds:
  "of_int a \<le> x \<Longrightarrow> x \<le> of_int b \<Longrightarrow> of_int a \<le> py_round x n \<and> py_round x n \<le> of_int b"
proof -
  assume a: "of_int a \<le> x" and b: "x \<le> of_int b"
  have "of_int (a * 10 ^ n) \<le> x * 10 ^ n" using a by simp
  then have 1: "a * 10 ^ n \<le> round_half_even (x * 10 ^ n)" by (rule round_half_even_ge)
  have "x * 10 ^ n \<le> of_int (b * 10 ^ n)" using b by simp
  then have 2: "round_half_even (x * 10 ^ n) \<le> b * 10 ^ n" by (rule round_half_even_le)
  have p: "(0::real) < 10 ^ n" by simp
  from 1 have "of_int (a * 10 ^ n) \<le> (of_int (round_half_even (x * 10 ^ n)) :: real)"
    by (simp only: of_int_le_iff)
  then have A: "of_int a \<le> py_round x n"
    using p by (simp add: py_round_def pos_le_divide_eq)
  from 2 have "(of_int (round_half_even (x * 10 ^ n)) :: real) \<le> of_int (b * 10 ^ n)"
    by (simp only: of_int_le_iff)
  then have B: "py_round x n \<le> of_int b"
    using p by (simp add: py_round_def pos_divide_le_eq)
  from A B show ?thesis by simp
qed

lemma aggregate_bounds:
  "0 \<le> fst (aggregate self ma macd adx rsi obv) \<and> fst (aggregate self ma macd adx rsi obv) \<le> 100"
  using py_round_bounds [of 0 "max 0 (min 100 ((of_int (ma + macd + adx + rsi + obv) * weight self + 2.1) / 4.2 * 100))" 100 2]
  by (simp add: aggregate_def Let_def)

lemma max_min_clamp: "max 0 (min 100 y) = clamp y 0 100"
  by (simp add: clamp_def max_def min_def)

lemma aggregate_spec:
  "aggregate (SP500TrendScorer fixed) ma macd adx rsi obv =
     (py_round (spec_normalized (spec_weighted_raw ma macd adx rsi obv)) 2,
      py_round (spec_weighted_raw ma macd adx rsi obv) 3)"
proof -
  have w: "of_int (ma + macd + adx + rsi + obv) * weight (SP500TrendScorer fixed)
             = spec_weighted_raw ma macd adx rsi obv"
    by (simp add: SP500TrendScorer_def spec_weighted_raw_def)
  show ?thesis
    unfolding aggregate_def Let_def w max_min_clamp spec_normalized_def by simp
qed

lemma decimals_py_round: "decimals n (py_round x n)"
  by (auto simp: decimals_def py_round_def)

lemma flt_irrefl: "\<not> flt x x"
  by (cases x) simp_all

lemma iloc_last_conv: "iloc r (- 1) = Inr v \<Longrightarrow> r \<noteq> [] \<and> last r = v"
  by (cases r rule: rev_cases) (auto simp: iloc_def nth_append split: if_splits)

subsection \<open>Runs of the test provider\<close>

lemma test_bars_rows: "test_bars (map test_row cs) = Inr (map test_bar_of cs)"
  by (induction cs) (simp_all add: test_row_def test_bar_of_def and_then_def)

lemma env_key: "environ test_world ''POLYGON_API_KEY'' = Some ''secret''"
  by (simp add: test_world_def)

lemma fetch_known:
  assumes "requests_get test_world (''https://api.polygon.io/v2/aggs/ticker/'' @ normalize_polygon_ticker tk @ ''/range/1/day/2023-12-25/2024-06-28'')
       [(''adjusted'', ''true''), (''sort'', ''asc''), (''limit'', ''50000''), (''apiKey'', ''secret'')] 20 = test_answer closes"
  shows "get_stock_data test_lib test_world test_scorer tk ''6mo'' =
    ([HttpGet (''https://api.polygon.io/v2/aggs/ticker/'' @ normalize_polygon_ticker tk @ ''/range/1/day/2023-12-25/2024-06-28'')],
     if closes = [] then None else Some (frame_of_bars (map test_bar_of closes)))"
  using assms
  by (simp add: get_stock_data_def test_scorer_def SP500TrendScorer_def period_to_days_def
        minus_days_def and_then_def test_answer_def check_status_def test_bars_rows
        test_lib_def env_key Let_def)

lemma req_up: "requests_get test_world ''https://api.polygon.io/v2/aggs/ticker/UP/range/1/day/2023-12-25/2024-06-28'' ps t = test_answer up_closes"
  by (simp add: test_world_def)

lemma fetch_up: "get_stock_data test_lib test_world test_scorer ''UP'' ''6mo'' =
    ([HttpGet ''https://api.polygon.io/v2/aggs/ticker/UP/range/1/day/2023-12-25/2024-06-28''],
     Some (frame_of_bars (map test_bar_of up_closes)))"
  using fetch_known [of "''UP''" up_closes]
  by (simp add: normalize_polygon_ticker_def req_up) (simp add: up_closes_def)


lemma len_frame: "len (frame_of_bars bars) = int (length bars)"
  by (simp add: len_def frame_of_bars_def)

lemma getcol_frame:
  "getcol (frame_of_bars bars) ''Close'' = Inr (map bar_close bars)"
  "getcol (frame_of_bars bars) ''High'' = Inr (map bar_high bars)"
  "getcol (frame_of_bars bars) ''Low'' = Inr (map bar_low bars)"
  "getcol (frame_of_bars bars) ''Volume'' = Inr (map bar_volume bars)"
  by (simp_all add: getcol_def frame_of_bars_def)

lemma macd_test: "34 \<le> length bars \<Longrightarrow> calculate_macd_score test_lib (frame_of_bars bars) = Inr 0"
  by (simp add: calculate_macd_score_def len_frame getcol_frame test_lib_def and_then_def
        iloc_def except_return_0_def isna_def fgt_def)

lemma adx_test: "28 \<le> length bars \<Longrightarrow> calculate_adx_score test_lib (frame_of_bars bars) 14 = Inr 0"
  by (simp add: calculate_adx_score_def len_frame getcol_frame test_lib_def and_then_def
        iloc_def except_return_0_def isna_def fgt_def)

lemma rsi_test: "14 \<le> length bars \<Longrightarrow> calculate_rsi_score test_lib (frame_of_bars bars) 14 = Inr 0"
  by (simp add: calculate_rsi_score_def len_frame getcol_frame test_lib_def and_then_def
        iloc_def except_return_0_def isna_def fgt_def)

lemma obv_test: "10 \<le> length bars \<Longrightarrow> calculate_obv_score test_lib (frame_of_bars bars) = Inr 0"
  by (simp add: calculate_obv_score_def len_frame getcol_frame test_lib_def and_then_def
        iloc_def except_return_0_def isna_def fgt_def Let_def)

lemma close_col:
  "map bar_close (map test_bar_of cs) = map Fin cs"
  "map (bar_close \<circ> test_bar_of) cs = map Fin cs"
  by (simp_all add: test_bar_of_def)

lemma window_mean_fin: "cs \<noteq> [] \<Longrightarrow> window_mean (map Fin cs) = Fin (sum_list cs / real (length cs))"
  by (auto simp: window_mean_def o_def)

lemma test_rolling_last:
  assumes "cs \<noteq> []" "0 < n" "nat n \<le> length cs"
  shows "\<exists>r. rolling_mean test_lib n (map Fin cs) = Inr r \<and>
       iloc r (- 1) = Inr (Fin (sum_list (drop (length cs - nat n) cs) / real_of_int n))"
proof -
  let ?w = "drop (length cs - nat n) cs"
  have len: "length ?w = nat n" using assms by simp
  then have ne: "?w \<noteq> []" using assms by auto
  have "window_mean (drop (length cs - nat n) (map Fin cs)) = window_mean (map Fin ?w)"
    by (simp add: drop_map)
  also have "\<dots> = Fin (sum_list ?w / real (length ?w))"
    using ne by (rule window_mean_fin)
  also have "real (length ?w) = real_of_int n" using len assms by simp
  finally have wm: "window_mean (drop (length cs - nat n) (map Fin cs)) = Fin (sum_list ?w / real_of_int n)" .
  have nl: "\<not> int (length cs) < n" using assms by linarith
  show ?thesis
    using assms nl by (simp add: test_lib_def test_rolling_mean_def iloc_last wm)
qed

lemma length_closes:
  "length up_closes = 50" "length down_closes = 50" "length short_closes = 49"
  by (simp_all add: up_closes_def down_closes_def short_closes_def)

lemma ma_up: "calculate_ma_score test_lib (frame_of_bars (map test_bar_of up_closes)) 20 50 = Inr 3"
proof -
  have ne: "up_closes \<noteq> []" by (simp add: up_closes_def)
  obtain r20 where r20: "rolling_mean test_lib 20 (map Fin up_closes) = Inr r20"
    "iloc r20 (- 1) = Inr (Fin 111)"
    using test_rolling_last [of up_closes 20] by (auto simp: up_closes_def sum_list_replicate)
  obtain r50 where r50: "rolling_mean test_lib 50 (map Fin up_closes) = Inr r50"
    "iloc r50 (- 1) = Inr (Fin 104.4)"
    using test_rolling_last [of up_closes 50] by (auto simp: up_closes_def sum_list_replicate)
  have l: "iloc (map Fin up_closes) (- 1) = Inr (Fin 130)"
    by (simp add: iloc_last up_closes_def)
  show ?thesis
    by (simp add: calculate_ma_score_def len_frame getcol_frame close_col r20 r50 l
          and_then_def fgt_def length_closes)
qed

lemma ma_down: "calculate_ma_score test_lib (frame_of_bars (map test_bar_of down_closes)) 20 50 = Inr (- 3)"
proof -
  obtain r20 where r20: "rolling_mean test_lib 20 (map Fin down_closes) = Inr r20"
    "iloc r20 (- 1) = Inr (Fin 89)"
    using test_rolling_last [of down_closes 20] by (auto simp: down_closes_def sum_list_replicate)
  obtain r50 where r50: "rolling_mean test_lib 50 (map Fin down_closes) = Inr r50"
    "iloc r50 (- 1) = Inr (Fin 95.6)"
    using test_rolling_last [of down_closes 50] by (auto simp: down_closes_def sum_list_replicate)
  have l: "iloc (map Fin down_closes) (- 1) = Inr (Fin 70)"
    by (simp add: iloc_last down_closes_def)
  show ?thesis
    by (simp add: calculate_ma_score_def len_frame getcol_frame close_col r20 r50 l
          and_then_def fgt_def length_closes)
qed


lemma req_others:
  "requests_get test_world ''https://api.polygon.io/v2/aggs/ticker/UP.B/range/1/day/2023-12-25/2024-06-28'' ps t = test_answer up_closes"
  "requests_get test_world ''https://api.polygon.io/v2/aggs/ticker/DOWN/range/1/day/2023-12-25/2024-06-28'' ps t = test_answer down_closes"
  "requests_get test_world ''https://api.polygon.io/v2/aggs/ticker/SHORT/range/1/day/2023-12-25/2024-06-28'' ps t = test_answer short_closes"
  "requests_get test_world ''https://api.polygon.io/v2/aggs/ticker/AAPL/range/1/day/2023-12-25/2024-06-28'' ps t = test_answer []"
  by (simp_all add: test_world_def)

lemma fetch_others:
  "get_stock_data test_lib test_world test_scorer ''UP-B'' ''6mo'' =
    ([HttpGet ''https://api.polygon.io/v2/aggs/ticker/UP.B/range/1/day/2023-12-25/2024-06-28''],
     Some (frame_of_bars (map test_bar_of up_closes)))"
  "get_stock_data test_lib test_world test_scorer ''DOWN'' ''6mo'' =
    ([HttpGet ''https://api.polygon.io/v2/aggs/ticker/DOWN/range/1/day/2023-12-25/2024-06-28''],
     Some (frame_of_bars (map test_bar_of down_closes)))"
  "get_stock_data test_lib test_world test_scorer ''SHORT'' ''6mo'' =
    ([HttpGet ''https://api.polygon.io/v2/aggs/ticker/SHORT/range/1/day/2023-12-25/2024-06-28''],
     Some (frame_of_bars (map test_bar_of short_closes)))"
  "get_stock_data test_lib test_world test_scorer ''AAPL'' ''6mo'' =
    ([HttpGet ''https://api.polygon.io/v2/aggs/ticker/AAPL/range/1/day/2023-12-25/2024-06-28''],
     None)"
  using fetch_known [of "''UP-B''" up_closes] fetch_known [of "''DOWN''" down_closes]
    fetch_known [of "''SHORT''" short_closes] fetch_known [of "''AAPL''" "[]"]
  by (simp_all add: normalize_polygon_ticker_def req_others)
     (simp_all add: up_closes_def down_closes_def short_closes_def)

lemma last_index: "cs \<noteq> [] \<Longrightarrow>
   iloc (row_index (frame_of_bars (map test_bar_of cs))) (- 1) = Inr (Some 1719532800000)"
  by (simp add: frame_of_bars_def iloc_last last_map test_bar_of_def)

lemma agg_test:
  "aggregate test_scorer 3 0 0 0 0 = (66.67, 0.7)"
  "aggregate test_scorer (- 3) 0 0 0 0 = (33.33, - 0.7)"
  by (simp_all add: aggregate_def test_scorer_def SP500TrendScorer_def py_round_def
        round_half_even_def Let_def)

lemma closes_ne: "up_closes \<noteq> []" "down_closes \<noteq> []"
  by (simp_all add: up_closes_def down_closes_def)

lemma up_result:
  "calculate_trend_score test_lib test_world test_scorer ''UP'' ''6mo'' =
     ([HttpGet ''https://api.polygon.io/v2/aggs/ticker/UP/range/1/day/2023-12-25/2024-06-28''],
      Inr (Some \<lparr>ticker = ''UP'', latest_date = ''2024-06-28'',
          normalized_trend_score = 66.67, weighted_raw_score = 0.7,
          ma_score = 3, macd_score = 0, adx_score = 0, rsi_score = 0, obv_score = 0\<rparr>))"
  by (simp add: calculate_trend_score_def fetch_up len_frame length_closes ma_up macd_test
        adx_test rsi_test obv_test agg_test last_index closes_ne and_then_def)
     (simp add: test_lib_def)

lemma upb_result:
  "calculate_trend_score test_lib test_world test_scorer ''UP-B'' ''6mo'' =
     ([HttpGet ''https://api.polygon.io/v2/aggs/ticker/UP.B/range/1/day/2023-12-25/2024-06-28''],
      Inr (Some \<lparr>ticker = ''UP-B'', latest_date = ''2024-06-28'',
          normalized_trend_score = 66.67, weighted_raw_score = 0.7,
          ma_score = 3, macd_score = 0, adx_score = 0, rsi_score = 0, obv_score = 0\<rparr>))"
  by (simp add: calculate_trend_score_def fetch_others len_frame length_closes ma_up macd_test
        adx_test rsi_test obv_test agg_test last_index closes_ne and_then_def)
     (simp add: test_lib_def)

lemma down_result:
  "calculate_trend_score test_lib test_world test_scorer ''DOWN'' ''6mo'' =
     ([HttpGet ''https://api.polygon.io/v2/aggs/ticker/DOWN/range/1/day/2023-12-25/2024-06-28''],
      Inr (Some \<lparr>ticker = ''DOWN'', latest_date = ''2024-06-28'',
          normalized_trend_score = 33.33, weighted_raw_score = - 0.7,
          ma_score = - 3, macd_score = 0, adx_score = 0, rsi_score = 0, obv_score = 0\<rparr>))"
  by (simp add: calculate_trend_score_def fetch_others len_frame length_closes ma_down macd_test
        adx_test rsi_test obv_test agg_test last_index closes_ne and_then_def)
     (simp add: test_lib_def)

lemma short_result:
  "calculate_trend_score test_lib test_world test_scorer ''SHORT'' ''6mo'' =
     ([HttpGet ''https://api.polygon.io/v2/aggs/ticker/SHORT/range/1/day/2023-12-25/2024-06-28''],
      Inr None)"
  by (simp add: calculate_trend_score_def fetch_others len_frame length_closes)

lemma aapl_result:
  "calculate_trend_score test_lib test_world test_scorer ''AAPL'' ''6mo'' =
     ([HttpGet ''https://api.polygon.io/v2/aggs/ticker/AAPL/range/1/day/2023-12-25/2024-06-28''],
      Inr None)"
  by (simp add: calculate_trend_score_def fetch_others)

lemma batch_test:
  "calculate_batch_scores test_lib test_world test_scorer [''DOWN'', ''UP-B'', ''AAPL'', ''SHORT'', ''UP''] ''6mo'' =
   ([HttpGet ''https://api.polygon.io/v2/aggs/ticker/DOWN/range/1/day/2023-12-25/2024-06-28'',
     HttpGet ''https://api.polygon.io/v2/aggs/ticker/UP.B/range/1/day/2023-12-25/2024-06-28'',
     HttpGet ''https://api.polygon.io/v2/aggs/ticker/AAPL/range/1/day/2023-12-25/2024-06-28'',
     HttpGet ''https://api.polygon.io/v2/aggs/ticker/SHORT/range/1/day/2023-12-25/2024-06-28'',
     HttpGet ''https://api.polygon.io/v2/aggs/ticker/UP/range/1/day/2023-12-25/2024-06-28''],
    Inr [\<lparr>ticker = ''UP-B'', latest_date = ''2024-06-28'',
          normalized_trend_score = 66.67, weighted_raw_score = 0.7,
          ma_score = 3, macd_score = 0, adx_score = 0, rsi_score = 0, obv_score = 0\<rparr>,
         \<lparr>ticker = ''UP'', latest_date = ''2024-06-28'',
          normalized_trend_score = 66.67, weighted_raw_score = 0.7,
          ma_score = 3, macd_score = 0, adx_score = 0, rsi_score = 0, obv_score = 0\<rparr>,
         \<lparr>ticker = ''DOWN'', latest_date = ''2024-06-28'',
          normalized_trend_score = 33.33, weighted_raw_score = - 0.7,
          ma_score = - 3, macd_score = 0, adx_score = 0, rsi_score = 0, obv_score = 0\<rparr>])"
  by (simp add: calculate_batch_scores_def up_result upb_result down_result short_result
        aapl_result sort_key_reverse_def)

subsection \<open>Single scores and batches\<close>

lemma cts_fst:
  "fst (calculate_trend_score lib w self tk p) = fst (get_stock_data lib w self tk p)"
  by (simp add: calculate_trend_score_def split_def Let_def)

lemma cts_result:
  assumes "snd (calculate_trend_score lib w self tk p) = Inr (Some r)"
  shows "\<exists>d. snd (get_stock_data lib w self tk p) = Some d \<and> 50 \<le> len d
      \<and> calculate_ma_score lib d 20 50 = Inr (ma_score r)
      \<and> calculate_macd_score lib d = Inr (macd_score r)
      \<and> calculate_adx_score lib d 14 = Inr (adx_score r)
      \<and> calculate_rsi_score lib d 14 = Inr (rsi_score r)
      \<and> calculate_obv_score lib d = Inr (obv_score r)
      \<and> normalized_trend_score r =
          fst (aggregate self (ma_score r) (macd_score r) (adx_score r) (rsi_score r) (obv_score r))
      \<and> weighted_raw_score r =
          snd (aggregate self (ma_score r) (macd_score r) (adx_score r) (rsi_score r) (obv_score r))"
  using assms
  by (auto simp: calculate_trend_score_def split_def Let_def and_then_def
      split: option.splits sum.splits if_splits)

lemma cts_none:
  "snd (calculate_trend_score lib w self tk p) = Inr None \<longleftrightarrow>
     (case snd (get_stock_data lib w self tk p) of None \<Rightarrow> True | Some d \<Rightarrow> len d < 50)"
  by (auto simp: calculate_trend_score_def split_def Let_def and_then_def
      split: option.splits sum.splits if_splits)

lemma fetch_frame:
  "get_stock_data lib w self tk p = (evs, Some d) \<Longrightarrow> \<exists>bars. d = frame_of_bars bars"
  by (auto simp: get_stock_data_def and_then_def Let_def split_def
      split: option.splits sum.splits if_splits prod.splits)

lemma ma_total:
  assumes "rolling_total lib" "getcol d ''Close'' = Inr c" "c \<noteq> []" "0 \<le> s" "0 \<le> l"
  shows "\<exists>v. calculate_ma_score lib d s l = Inr v"
proof -
  from assms obtain rs where rs: "rolling_mean lib s c = Inr rs" "length rs = length c"
    unfolding rolling_total_def by blast
  from assms obtain rl where rl: "rolling_mean lib l c = Inr rl" "length rl = length c"
    unfolding rolling_total_def by blast
  have ne: "rs \<noteq> []" "rl \<noteq> []" using rs rl assms by auto
  show ?thesis
    using assms ne
    by (simp add: calculate_ma_score_def and_then_def rs rl iloc_last)
qed

lemma cts_some:
  assumes f: "get_stock_data lib w self tk p = (evs, Some d)" and l: "50 \<le> len d"
    and rt: "rolling_total lib" and ix: "last (row_index d) \<noteq> None"
  shows "\<exists>r. snd (calculate_trend_score lib w self tk p) = Inr (Some r)"
proof -
  from f obtain bars where d: "d = frame_of_bars bars" using fetch_frame by blast
  have nb: "bars \<noteq> []" using l d by (auto simp: len_frame)
  have "getcol d ''Close'' = Inr (map bar_close bars)" by (simp add: d getcol_frame)
  with rt nb obtain ma where ma: "calculate_ma_score lib d 20 50 = Inr ma"
    using ma_total [of lib d "map bar_close bars" 20 50] by auto
  obtain macd where macd: "calculate_macd_score lib d = Inr macd" using macd_total by blast
  obtain adx where adx: "calculate_adx_score lib d 14 = Inr adx" using adx_total by blast
  obtain rsi where rsi: "calculate_rsi_score lib d 14 = Inr rsi" using rsi_total by blast
  obtain obv where obv: "calculate_obv_score lib d = Inr obv" using obv_total by blast
  have ri: "row_index d \<noteq> []" using nb d by (simp add: frame_of_bars_def)
  from ix obtain t where t: "last (row_index d) = Some t" by auto
  show ?thesis
    using l
    by (simp add: calculate_trend_score_def f ma macd adx rsi obv and_then_def split_def Let_def
          iloc_last ri t)
qed

lemma rolling_total_test: "rolling_total test_lib"
  by (auto simp: rolling_total_def test_lib_def test_rolling_mean_def)








lemma batch_loop_events:
  "snd (batch_loop lib w self p tks acc) = Inr rs \<Longrightarrow>
   fst (batch_loop lib w self p tks acc) =
     concat (map (\<lambda>tk. fst (calculate_trend_score lib w self tk p)) tks)"
proof (induction tks arbitrary: acc)
  case Nil
  then show ?case by simp
next
  case (Cons tk tks)
  then show ?case
    by (auto simp: split_def Let_def split: sum.splits option.splits)
qed

lemma latest_no_sleep: "e \<in> set (fst (latest_trading_date lib w tk)) \<Longrightarrow> \<not> is_sleep e"
  by (auto simp: latest_trading_date_def Let_def split: option.splits if_splits)

lemma latest_end_no_sleep: "e \<in> set (fst (latest_end_date lib w tk)) \<Longrightarrow> \<not> is_sleep e"
  by (auto simp: latest_end_date_def Let_def split_def dest: latest_no_sleep split: if_splits)

lemma fetch_no_sleep: "e \<in> set (fst (get_stock_data lib w self tk p)) \<Longrightarrow> \<not> is_sleep e"
  by (auto simp: get_stock_data_def Let_def split_def dest: latest_end_no_sleep
      split: option.splits if_splits sum.splits)

lemma batch_loop_no_sleep:
  "e \<in> set (fst (batch_loop lib w self p tks acc)) \<Longrightarrow> \<not> is_sleep e"
proof (induction tks arbitrary: acc)
  case Nil
  then show ?case by simp
next
  case (Cons tk tks)
  then show ?case
    by (auto simp: split_def Let_def cts_fst dest: fetch_no_sleep split: sum.splits option.splits)
qed













subsection \<open>The claims\<close>

text \<open>
  C5 (as stated): for every five-tuple of equal component scores the normalised score is
  50.00. This fails: five scores of 1 give 77.78.
\<close>

theorem equal_scores_not_50:
  "fst (aggregate (SP500TrendScorer None) 1 1 1 1 1) = 77.78
   \<and> fst (aggregate (SP500TrendScorer None) 1 1 1 1 1) \<noteq> 50"
  by (simp add: aggregate_def SP500TrendScorer_def py_round_def round_half_even_def Let_def)

text \<open>
  C5 (amended): for every five-tuple of component scores whose sum is zero, in particular
  for five zero scores, the normalised score of a scorer built by the constructor is
  exactly 50.
\<close>

theorem zero_sum_scores_50:
  "ma + macd + adx + rsi + obv = 0 \<Longrightarrow>
   fst (aggregate (SP500TrendScorer fixed) ma macd adx rsi obv) = 50"
  by (simp add: aggregate_def SP500TrendScorer_def py_round_def round_half_even_def Let_def)

theorem zero_sum_scores_50_witness:
  "fst (aggregate (SP500TrendScorer None) 0 0 0 0 0) = 50
   \<and> fst (aggregate (SP500TrendScorer None) 3 (- 2) (- 2) 1 0) = 50"
  using zero_sum_scores_50 [of 0 0 0 0 0 None] zero_sum_scores_50 [of 3 "- 2" "- 2" 1 0 None]
  by simp

text \<open>
  C8: each scorer returns the neutral score 0, without raising, when the frame has fewer
  rows than its minimum: the long period for MA (50 by default), 34 for MACD, the period
  plus 14 for ADX (28 by default), the period for RSI (14 by default), 10 for OBV.
\<close>

theorem short_series_score_0:
  "(len data < long_period \<longrightarrow> calculate_ma_score lib data short_period long_period = Inr 0)
   \<and> (len data < 34 \<longrightarrow> calculate_macd_score lib data = Inr 0)
   \<and> (len data < adx_period + 14 \<longrightarrow> calculate_adx_score lib data adx_period = Inr 0)
   \<and> (len data < rsi_period \<longrightarrow> calculate_rsi_score lib data rsi_period = Inr 0)
   \<and> (len data < 10 \<longrightarrow> calculate_obv_score lib data = Inr 0)"
  by (simp add: calculate_ma_score_def calculate_macd_score_def calculate_adx_score_def
        calculate_rsi_score_def calculate_obv_score_def)

theorem short_series_score_0_witness:
  "calculate_ma_score test_lib (frame_of_bars (map test_bar_of [1, 2, 3, 4, 5, 6, 7, 8, 9])) 20 50 = Inr 0
   \<and> calculate_macd_score test_lib (frame_of_bars (map test_bar_of [1, 2, 3, 4, 5, 6, 7, 8, 9])) = Inr 0
   \<and> calculate_adx_score test_lib (frame_of_bars (map test_bar_of [1, 2, 3, 4, 5, 6, 7, 8, 9])) 14 = Inr 0
   \<and> calculate_rsi_score test_lib (frame_of_bars (map test_bar_of [1, 2, 3, 4, 5, 6, 7, 8, 9])) 14 = Inr 0
   \<and> calculate_obv_score test_lib (frame_of_bars (map test_bar_of [1, 2, 3, 4, 5, 6, 7, 8, 9])) = Inr 0"
  using short_series_score_0 [of "frame_of_bars (map test_bar_of [1, 2, 3, 4, 5, 6, 7, 8, 9])"
      50 test_lib 20 14 14]
  by (simp add: len_frame)

text \<open>
  C4 (as stated): a latest RSI(14) of exactly 70.0 scores 0. This fails: with an RSI series
  ending in 70.0 the scorer returns 1, since 70 is not above 70 but is above 60.
\<close>

theorem rsi_70_scores_1:
  "ta_rsi (rsi_lib 70) (map Fin up_closes) 14 = Inr (map (\<lambda>_. Fin 70) up_closes)
   \<and> last (map (\<lambda>_. Fin 70) up_closes) = Fin 70
   \<and> calculate_rsi_score (rsi_lib 70) (frame_of_bars (map test_bar_of up_closes)) 14 = Inr 1
   \<and> calculate_rsi_score (rsi_lib 70) (frame_of_bars (map test_bar_of up_closes)) 14 \<noteq> Inr 0"
  by (simp add: rsi_lib_def test_lib_def calculate_rsi_score_def len_frame length_closes
        getcol_frame close_col and_then_def iloc_last closes_ne last_map isna_def fgt_def
        except_return_0_def)

text \<open>
  C4 (amended): for a series whose latest RSI is the finite value \<open>x\<close>, the RSI scorer
  returns \<open>-1\<close> when \<open>x > 70\<close>, 1 when \<open>60 < x \<le> 70\<close>, 1 when \<open>x < 30\<close>, \<open>-1\<close> when
  \<open>30 \<le> x < 40\<close> and 0 otherwise. So a latest RSI of exactly 70.0 scores 1 (only an RSI
  strictly above 70 scores \<open>-1\<close>), and 70.01 scores \<open>-1\<close>.
\<close>

theorem rsi_score_table:
  "period \<le> len data \<Longrightarrow> getcol data ''Close'' = Inr close \<Longrightarrow>
   ta_rsi lib close period = Inr rsi \<Longrightarrow> rsi \<noteq> [] \<Longrightarrow> last rsi = Fin x \<Longrightarrow>
   calculate_rsi_score lib data period =
     Inr (if 70 < x then - 1 else if 60 < x then 1 else if x < 30 then 1
          else if x < 40 then - 1 else 0)"
  by (simp add: calculate_rsi_score_def and_then_def iloc_last isna_def fgt_def
        except_return_0_def)

theorem rsi_score_table_witness:
  "calculate_rsi_score (rsi_lib 70) (frame_of_bars (map test_bar_of up_closes)) 14 = Inr 1
   \<and> calculate_rsi_score (rsi_lib 70.01) (frame_of_bars (map test_bar_of up_closes)) 14
       = Inr (- 1)"
  using rsi_score_table [of 14 "frame_of_bars (map test_bar_of up_closes)" "map Fin up_closes"
      "rsi_lib 70" "map (\<lambda>_. Fin 70) up_closes" 70]
    rsi_score_table [of 14 "frame_of_bars (map test_bar_of up_closes)" "map Fin up_closes"
      "rsi_lib 70.01" "map (\<lambda>_. Fin 70.01) up_closes" "70.01"]
  by (simp add: rsi_lib_def test_lib_def len_frame length_closes getcol_frame close_col
        closes_ne last_map)

text \<open>
  C10: when the latest 20-bar and 50-bar means are equal, the MA scorer returns 1 if the
  last close is strictly above them, \<open>-1\<close> if it is strictly below, and 0 only when it is
  neither.
\<close>

theorem ma_tie_score:
  "50 \<le> len data \<Longrightarrow> getcol data ''Close'' = Inr close \<Longrightarrow> close \<noteq> [] \<Longrightarrow>
   rolling_mean lib 20 close = Inr short_ma \<Longrightarrow> rolling_mean lib 50 close = Inr long_ma \<Longrightarrow>
   short_ma \<noteq> [] \<Longrightarrow> long_ma \<noteq> [] \<Longrightarrow> last short_ma = last long_ma \<Longrightarrow>
   calculate_ma_score lib data 20 50 =
     Inr (if fgt (last close) (last short_ma) then 1
          else if flt (last close) (last short_ma) then - 1 else 0)"
  by (simp add: calculate_ma_score_def and_then_def iloc_last fgt_def flt_irrefl)

theorem ma_tie_score_witness:
  "calculate_ma_score test_lib (frame_of_bars (map test_bar_of tie_closes)) 20 50 = Inr 1"
proof -
  have n: "tie_closes \<noteq> []" "length tie_closes = 50" by (simp_all add: tie_closes_def)
  obtain r20 where r20: "rolling_mean test_lib 20 (map Fin tie_closes) = Inr r20"
    "iloc r20 (- 1) = Inr (Fin 100)"
    using test_rolling_last [of tie_closes 20] by (auto simp: tie_closes_def sum_list_replicate)
  obtain r50 where r50: "rolling_mean test_lib 50 (map Fin tie_closes) = Inr r50"
    "iloc r50 (- 1) = Inr (Fin 100)"
    using test_rolling_last [of tie_closes 50] by (auto simp: tie_closes_def sum_list_replicate)
  have l: "last (map Fin tie_closes) = Fin 110" by (simp add: tie_closes_def)
  show ?thesis
    using ma_tie_score [of "frame_of_bars (map test_bar_of tie_closes)" "map Fin tie_closes"
        test_lib r20 r50] iloc_last_conv [OF r20(2)] iloc_last_conv [OF r50(2)] r20(1) r50(1) n l
    by (simp add: len_frame getcol_frame close_col fgt_def)
qed



text \<open>
  C1: for every five scores, a scorer built by the constructor computes the weighted raw
  score \<open>(2.1 / 9) * (ma + macd + adx + rsi + obv)\<close> and the normalised score
  \<open>clamp (((weighted_raw + 2.1) / 4.2) * 100) 0 100\<close>, and stores the normalised score
  rounded to 2 decimal places and the weighted raw score rounded to 3. Each is rounded
  once, at the end: the normalised score is computed from the unrounded weighted raw
  score. This holds for the pair computed from any five scores and for the two numbers in
  every result of the single-ticker operation.
\<close>

theorem aggregation_as_specified:
  "aggregate (SP500TrendScorer fixed) ma macd adx rsi obv =
     (py_round (spec_normalized (spec_weighted_raw ma macd adx rsi obv)) 2,
      py_round (spec_weighted_raw ma macd adx rsi obv) 3)
   \<and> decimals 2 (fst (aggregate (SP500TrendScorer fixed) ma macd adx rsi obv))
   \<and> decimals 3 (snd (aggregate (SP500TrendScorer fixed) ma macd adx rsi obv))
   \<and> (snd (calculate_trend_score lib w (SP500TrendScorer fixed) tk period) = Inr (Some r) \<longrightarrow>
        normalized_trend_score r =
          py_round (spec_normalized (spec_weighted_raw (ma_score r) (macd_score r)
            (adx_score r) (rsi_score r) (obv_score r))) 2
        \<and> weighted_raw_score r =
          py_round (spec_weighted_raw (ma_score r) (macd_score r) (adx_score r) (rsi_score r)
            (obv_score r)) 3)"
proof -
  have "snd (calculate_trend_score lib w (SP500TrendScorer fixed) tk period) = Inr (Some r) \<Longrightarrow>
        normalized_trend_score r =
          py_round (spec_normalized (spec_weighted_raw (ma_score r) (macd_score r)
            (adx_score r) (rsi_score r) (obv_score r))) 2
        \<and> weighted_raw_score r =
          py_round (spec_weighted_raw (ma_score r) (macd_score r) (adx_score r) (rsi_score r)
            (obv_score r)) 3"
    using cts_result [of lib w "SP500TrendScorer fixed" tk period r]
    by (auto simp: aggregate_spec)
  then show ?thesis
    by (simp add: aggregate_spec decimals_py_round)
qed

theorem aggregation_as_specified_witness:
  "aggregate (SP500TrendScorer (Some ''2024-06-28'')) 3 0 0 0 0 = (66.67, 0.7)
   \<and> py_round (spec_normalized (spec_weighted_raw 3 0 0 0 0)) 2 = 66.67
   \<and> py_round (spec_weighted_raw 3 0 0 0 0) 3 = 0.7
   \<and> snd (calculate_trend_score test_lib test_world (SP500TrendScorer (Some ''2024-06-28''))
          ''UP'' ''6mo'') =
       Inr (Some \<lparr>ticker = ''UP'', latest_date = ''2024-06-28'',
          normalized_trend_score = py_round (spec_normalized (spec_weighted_raw 3 0 0 0 0)) 2,
          weighted_raw_score = py_round (spec_weighted_raw 3 0 0 0 0) 3,
          ma_score = 3, macd_score = 0, adx_score = 0, rsi_score = 0, obv_score = 0\<rparr>)"
  using aggregation_as_specified [of "Some ''2024-06-28''" 3 0 0 0 0 test_lib test_world
      "''UP''" "''6mo''"
      "\<lparr>ticker = ''UP'', latest_date = ''2024-06-28'',
          normalized_trend_score = 66.67, weighted_raw_score = 0.7,
          ma_score = 3, macd_score = 0, adx_score = 0, rsi_score = 0, obv_score = 0\<rparr>"]
    up_result agg_test
  by (simp add: test_scorer_def)

text \<open>
  C2: every result of the single-ticker operation comes from a fetched frame of at least
  50 rows, its MA score lies in \<open>[-3, 3]\<close>, its MACD and ADX scores in \<open>[-2, 2]\<close>, its RSI
  and OBV scores in \<open>[-1, 1]\<close>, and its normalised score in \<open>[0, 100]\<close>.
\<close>

theorem scores_within_ranges:
  "snd (calculate_trend_score lib w self tk period) = Inr (Some r) \<Longrightarrow>
     (\<exists>d. snd (get_stock_data lib w self tk period) = Some d \<and> 50 \<le> len d)
     \<and> - 3 \<le> ma_score r \<and> ma_score r \<le> 3
     \<and> - 2 \<le> macd_score r \<and> macd_score r \<le> 2
     \<and> - 2 \<le> adx_score r \<and> adx_score r \<le> 2
     \<and> - 1 \<le> rsi_score r \<and> rsi_score r \<le> 1
     \<and> - 1 \<le> obv_score r \<and> obv_score r \<le> 1
     \<and> 0 \<le> normalized_trend_score r \<and> normalized_trend_score r \<le> 100"
proof -
  assume "snd (calculate_trend_score lib w self tk period) = Inr (Some r)"
  then obtain d where d: "snd (get_stock_data lib w self tk period) = Some d" "50 \<le> len d"
      "calculate_ma_score lib d 20 50 = Inr (ma_score r)"
      "calculate_macd_score lib d = Inr (macd_score r)"
      "calculate_adx_score lib d 14 = Inr (adx_score r)"
      "calculate_rsi_score lib d 14 = Inr (rsi_score r)"
      "calculate_obv_score lib d = Inr (obv_score r)"
      "normalized_trend_score r =
          fst (aggregate self (ma_score r) (macd_score r) (adx_score r) (rsi_score r) (obv_score r))"
    using cts_result by blast
  show ?thesis
    using d ma_range [OF d(3)] macd_range [OF d(4)] adx_range [OF d(5)] rsi_range [OF d(6)]
      obv_range [OF d(7)] aggregate_bounds [of self "ma_score r" "macd_score r" "adx_score r"
        "rsi_score r" "obv_score r"]
    by auto
qed

theorem scores_within_ranges_witness:
  "snd (calculate_trend_score test_lib test_world test_scorer ''DOWN'' ''6mo'') =
     Inr (Some \<lparr>ticker = ''DOWN'', latest_date = ''2024-06-28'',
          normalized_trend_score = 33.33, weighted_raw_score = - 0.7,
          ma_score = - 3, macd_score = 0, adx_score = 0, rsi_score = 0, obv_score = 0\<rparr>)
   \<and> (- 3 :: int) \<le> - 3 \<and> (0 :: real) \<le> 33.33 \<and> (33.33 :: real) \<le> 100"
  using scores_within_ranges [of test_lib test_world test_scorer "''DOWN''" "''6mo''"
      "\<lparr>ticker = ''DOWN'', latest_date = ''2024-06-28'',
          normalized_trend_score = 33.33, weighted_raw_score = - 0.7,
          ma_score = - 3, macd_score = 0, adx_score = 0, rsi_score = 0, obv_score = 0\<rparr>"]
    down_result
  by simp

text \<open>
  C3: the single-ticker operation returns \<^verbatim>\<open>None\<close> exactly when the fetched frame is
  \<^verbatim>\<open>None\<close> or has fewer than 50 rows; in particular a frame of 49 rows gives \<^verbatim>\<open>None\<close>.
  A frame of 50 rows or more gives a result when all else is satisfied: the rolling mean
  of pandas returns (a series as long as its input) and the last index entry is a date.
\<close>

theorem null_iff_insufficient_data:
  "get_stock_data lib w self tk period = (evs, fetched) \<Longrightarrow>
     (snd (calculate_trend_score lib w self tk period) = Inr None
        \<longleftrightarrow> (fetched = None \<or> (\<exists>d. fetched = Some d \<and> len d < 50)))
     \<and> (\<forall>d. fetched = Some d \<and> len d = 49 \<longrightarrow>
            snd (calculate_trend_score lib w self tk period) = Inr None)
     \<and> (\<forall>d. fetched = Some d \<and> 50 \<le> len d \<and> rolling_total lib
              \<and> last (row_index d) \<noteq> None \<longrightarrow>
            (\<exists>r. snd (calculate_trend_score lib w self tk period) = Inr (Some r)))"
proof -
  assume f: "get_stock_data lib w self tk period = (evs, fetched)"
  have 1: "snd (calculate_trend_score lib w self tk period) = Inr None
        \<longleftrightarrow> (fetched = None \<or> (\<exists>d. fetched = Some d \<and> len d < 50))"
    using f by (auto simp: cts_none split: option.splits)
  have 2: "\<forall>d. fetched = Some d \<and> len d = 49 \<longrightarrow>
            snd (calculate_trend_score lib w self tk period) = Inr None"
    using f by (auto simp: cts_none)
  have 3: "\<forall>d. fetched = Some d \<and> 50 \<le> len d \<and> rolling_total lib
              \<and> last (row_index d) \<noteq> None \<longrightarrow>
            (\<exists>r. snd (calculate_trend_score lib w self tk period) = Inr (Some r))"
    using f cts_some by blast
  from 1 2 3 show ?thesis by blast
qed

theorem null_iff_insufficient_data_witness:
  "len (frame_of_bars (map test_bar_of short_closes)) = 49
   \<and> snd (calculate_trend_score test_lib test_world test_scorer ''SHORT'' ''6mo'') = Inr None
   \<and> len (frame_of_bars (map test_bar_of up_closes)) = 50
   \<and> (\<exists>r. snd (calculate_trend_score test_lib test_world test_scorer ''UP'' ''6mo'')
          = Inr (Some r))"
proof -
  have t: "last (row_index (frame_of_bars (map test_bar_of up_closes))) \<noteq> None"
    by (simp add: frame_of_bars_def last_map closes_ne test_bar_of_def)
  have s: "snd (calculate_trend_score test_lib test_world test_scorer ''SHORT'' ''6mo'') = Inr None"
    using null_iff_insufficient_data [OF fetch_others(3)]
    by (simp add: len_frame length_closes)
  have u: "\<exists>r. snd (calculate_trend_score test_lib test_world test_scorer ''UP'' ''6mo'')
          = Inr (Some r)"
    using null_iff_insufficient_data [OF fetch_up] rolling_total_test t
    by (simp add: len_frame length_closes)
  from s u show ?thesis by (simp add: len_frame length_closes)
qed




text \<open>
  C9 (as stated): during batch scoring a delay is imposed before each external fetch. This
  fails: the events of a batch of five tickers are five HTTP requests with no sleep before
  any of them.
\<close>

theorem batch_has_no_delay:
  "\<not> delay_before_each_fetch
       (fst (calculate_batch_scores test_lib test_world test_scorer
               [''DOWN'', ''UP-B'', ''AAPL'', ''SHORT'', ''UP''] ''6mo''))"
  by (simp add: batch_test)

text \<open>
  C9 (amended): batch scoring imposes no delay. No event of a batch is a sleep, and when
  the batch returns, its events are the events of the single-ticker operations of its
  tickers, one after the other in input order.
\<close>

theorem batch_events_sequential:
  "(\<forall>e\<in>set (fst (calculate_batch_scores lib w self tickers period)). \<not> is_sleep e)
   \<and> (\<forall>rs. snd (calculate_batch_scores lib w self tickers period) = Inr rs \<longrightarrow>
         fst (calculate_batch_scores lib w self tickers period) =
           concat (map (\<lambda>tk. fst (calculate_trend_score lib w self tk period)) tickers))"
proof -
  have A: "\<forall>e\<in>set (fst (calculate_batch_scores lib w self tickers period)). \<not> is_sleep e"
    using batch_loop_no_sleep [of _ lib w self period tickers "[]"]
    by (auto simp: calculate_batch_scores_def split_def Let_def)
  have B: "\<forall>rs. snd (calculate_batch_scores lib w self tickers period) = Inr rs \<longrightarrow>
         fst (calculate_batch_scores lib w self tickers period) =
           concat (map (\<lambda>tk. fst (calculate_trend_score lib w self tk period)) tickers)"
    using batch_loop_events [of lib w self period tickers "[]"]
    by (auto simp: calculate_batch_scores_def split_def Let_def split: sum.splits)
  from A B show ?thesis by blast
qed

theorem batch_events_sequential_witness:
  "fst (calculate_batch_scores test_lib test_world test_scorer
          [''DOWN'', ''UP-B'', ''AAPL'', ''SHORT'', ''UP''] ''6mo'') =
   [HttpGet ''https://api.polygon.io/v2/aggs/ticker/DOWN/range/1/day/2023-12-25/2024-06-28'',
    HttpGet ''https://api.polygon.io/v2/aggs/ticker/UP.B/range/1/day/2023-12-25/2024-06-28'',
    HttpGet ''https://api.polygon.io/v2/aggs/ticker/AAPL/range/1/day/2023-12-25/2024-06-28'',
    HttpGet ''https://api.polygon.io/v2/aggs/ticker/SHORT/range/1/day/2023-12-25/2024-06-28'',
    HttpGet ''https://api.polygon.io/v2/aggs/ticker/UP/range/1/day/2023-12-25/2024-06-28'']
   \<and> list_all (\<lambda>e. \<not> is_sleep e)
        (fst (calculate_batch_scores test_lib test_world test_scorer
          [''DOWN'', ''UP-B'', ''AAPL'', ''SHORT'', ''UP''] ''6mo''))"
  using batch_events_sequential [of test_lib test_world test_scorer
      "[''DOWN'', ''UP-B'', ''AAPL'', ''SHORT'', ''UP'']" "''6mo''"] batch_test
  by (simp add: list_all_iff up_result upb_result down_result short_result aapl_result)

subsection \<open>Further properties\<close>

text \<open>
  The MACD, ADX, RSI and OBV scorers never raise: for every library, frame and period they
  return a score.
\<close>

theorem guarded_scorers_never_raise:
  "(\<exists>v. calculate_macd_score lib data = Inr v)
   \<and> (\<exists>v. calculate_adx_score lib data adx_period = Inr v)
   \<and> (\<exists>v. calculate_rsi_score lib data rsi_period = Inr v)
   \<and> (\<exists>v. calculate_obv_score lib data = Inr v)"
  by (simp add: macd_total adx_total rsi_total obv_total)

text \<open>
  The extreme cases: the highest scores \<open>(3, 2, 2, 1, 1)\<close> give the normalised score 100
  and the weighted raw score 2.1; the lowest scores give 0 and \<open>-2.1\<close>.
\<close>

theorem extreme_scores_normalized:
  "aggregate (SP500TrendScorer fixed) 3 2 2 1 1 = (100, 2.1)
   \<and> aggregate (SP500TrendScorer fixed) (- 3) (- 2) (- 2) (- 1) (- 1) = (0, - 2.1)"
  by (simp add: aggregate_def SP500TrendScorer_def py_round_def round_half_even_def Let_def)

text \<open>
  The five periods map to 31, 93, 186, 365 and 730 days, and every other string to the 186
  days of six months.
\<close>

theorem period_to_days_table:
  "period_to_days period =
     (if period = ''1mo'' then 31 else if period = ''3mo'' then 93
      else if period = ''6mo'' then 186 else if period = ''1y'' then 365
      else if period = ''2y'' then 730 else 186)"
  by (simp add: period_to_days_def)

text \<open>
  Ticker normalisation replaces every hyphen by a dot and nothing else: BRK-B becomes
  BRK.B, the length is kept and no hyphen is left.
\<close>

theorem normalize_ticker_dots:
  "normalize_polygon_ticker ''BRK-B'' = ''BRK.B''
   \<and> length (normalize_polygon_ticker tk) = length tk
   \<and> CHR ''-'' \<notin> set (normalize_polygon_ticker tk)"
  by (auto simp: normalize_polygon_ticker_def)

text \<open>
  Without a provider credential (the variable is unset or empty) the fetch returns
  \<^verbatim>\<open>None\<close> and sends no request, and so the single-ticker operation returns \<^verbatim>\<open>None\<close>.
\<close>

theorem no_credential_no_request:
  "environ w ''POLYGON_API_KEY'' = None \<or> environ w ''POLYGON_API_KEY'' = Some [] \<Longrightarrow>
   get_stock_data lib w self tk period = ([], None)
   \<and> calculate_trend_score lib w self tk period = ([], Inr None)"
  by (auto simp: get_stock_data_def calculate_trend_score_def)

theorem no_credential_no_request_witness:
  "calculate_trend_score test_lib no_key_world test_scorer ''UP'' ''6mo'' = ([], Inr None)"
  using no_credential_no_request [of no_key_world test_lib test_scorer "''UP''" "''6mo''"]
  by (simp add: no_key_world_def)

text \<open>
  Every frame the fetch returns has the five columns Open, High, Low, Close and Volume,
  each as long as the frame.
\<close>

theorem fetched_frame_columns:
  "get_stock_data lib w self tk period = (evs, Some d) \<Longrightarrow>
   (\<exists>op hi lo cl vol.
      getcol d ''Open'' = Inr op \<and> getcol d ''High'' = Inr hi \<and> getcol d ''Low'' = Inr lo
      \<and> getcol d ''Close'' = Inr cl \<and> getcol d ''Volume'' = Inr vol
      \<and> int (length op) = len d \<and> int (length hi) = len d \<and> int (length lo) = len d
      \<and> int (length cl) = len d \<and> int (length vol) = len d)"
proof -
  assume "get_stock_data lib w self tk period = (evs, Some d)"
  then obtain bars where "d = frame_of_bars bars" using fetch_frame by blast
  then show ?thesis by (simp add: getcol_def frame_of_bars_def len_def)
qed

theorem fetched_frame_columns_witness:
  "getcol (frame_of_bars (map test_bar_of up_closes)) ''Close'' = Inr (map Fin up_closes)
   \<and> len (frame_of_bars (map test_bar_of up_closes)) = 50"
  using fetched_frame_columns [OF fetch_up]
  by (simp add: getcol_frame close_col len_frame length_closes)

text \<open>
  Called on its own with a frame of 50 rows that has no Close column, the MA scorer
  raises \<^verbatim>\<open>KeyError\<close>, having no handler, where the four other scorers return 0. The
  fetch never returns such a frame.
\<close>

theorem ma_scorer_propagates:
  "calculate_ma_score lib no_close_frame 20 50 = Inl KeyError
   \<and> calculate_macd_score lib no_close_frame = Inr 0
   \<and> calculate_adx_score lib no_close_frame 14 = Inr 0
   \<and> calculate_rsi_score lib no_close_frame 14 = Inr 0
   \<and> calculate_obv_score lib no_close_frame = Inr 0"
  by (simp add: calculate_ma_score_def calculate_macd_score_def calculate_adx_score_def
        calculate_rsi_score_def calculate_obv_score_def no_close_frame_def len_def getcol_def
        and_then_def except_return_0_def)

end
